theory Spec2Isabelle
  imports Main "HOL-Library.Sublist"
begin

section \<open>The voice assistant: data model\<close>

text \<open>
  The program is a FastAPI facade (\<^verbatim>\<open>server.py\<close>) over one process-wide
  \<^verbatim>\<open>VoiceAssistant\<close> object (\<^verbatim>\<open>agent.py\<close>). The object's fields and
  the part of the file system the code touches together form the state \<open>world\<close>; every
  method is a function from the state to an outcome and the state it leaves behind. An
  exception is an outcome \<open>Inl e\<close>; the state returned with it is the state at the
  moment of the raise, since the object outlives the request that failed.

  Python \<^verbatim>\<open>str\<close> values that carry text (transcripts, replies, prompts) are
  lists of Unicode code points; file paths and role names, which the code builds from ASCII
  literals and decimal digits only, are HOL strings. Python integers are \<open>int\<close>.
\<close>

type_synonym py_str = "nat list"

type_synonym bytes = "char list"

definition py_str_of :: "string \<Rightarrow> py_str" where
  "py_str_of s = map of_char s"

datatype py_error =
    IndexError
  | FileNotFoundError string
  | ServiceError string

text \<open>\<^verbatim>\<open>str(e)\<close>, as the facade puts it into the detail of a 500 response.\<close>

fun str_error :: "py_error \<Rightarrow> string" where
  "str_error IndexError = ''pop from empty list''"
| "str_error (FileNotFoundError p) =
     ''[Errno 2] No such file or directory: '' @ [CHR 0x27] @ p @ [CHR 0x27]"
| "str_error (ServiceError m) = m"

record message =
  role :: string
  content :: py_str

text \<open>
  A conversation turn is the dict \<^verbatim>\<open>conversation_data\<close>. The two URL keys are
  absent until the facade's \<^verbatim>\<open>process_audio\<close> adds them to the dict it got back.
\<close>

record turn =
  turn_id :: int
  user_text :: py_str
  ai_text :: py_str
  input_audio :: string
  output_audio :: string
  input_audio_url :: "string option"
  output_audio_url :: "string option"

datatype openai_client = OpenAI string

text \<open>
  The fields of \<^verbatim>\<open>VoiceAssistant\<close>, then the file system as far as the code
  touches it: the directory \<^verbatim>\<open>AUDIO_DIR\<close>, which is absent (\<open>None\<close>) or holds a
  set of files, each named by the path the code uses for it. Every path the code tests,
  writes or removes is one that \<^verbatim>\<open>process_conversation\<close> built inside that
  directory. File contents are not tracked: no operation reads a file back.
\<close>

record world =
  memory_size :: int
  conversation_history :: "message list"
  conversations :: "turn list"
  use_context :: bool
  is_custom :: bool
  custom_openai_client :: "openai_client option"
  audio_dir :: "string set option"

text \<open>
  The three external services and the clock are opaque to the program. One request sees
  them through an \<open>env\<close>: the millisecond timestamp \<^verbatim>\<open>int(time.time() * 1000)\<close>,
  and what each service call returns or raises.
\<close>

record env =
  now_ms :: int
  deepgram_transcribe :: "bytes \<Rightarrow> py_error + py_str"
  openai_chat :: "openai_client \<Rightarrow> message list \<Rightarrow> py_error + py_str"
  deepgram_speak :: "py_str \<Rightarrow> py_error + bytes"
  default_openai_client :: openai_client

datatype result = ErrorResult string | TurnResult turn

section \<open>Python and operating-system primitives\<close>

text \<open>Decimal rendering of an integer, as an f-string does.\<close>

fun str_nat :: "nat \<Rightarrow> string" where
  "str_nat n =
     (if n < 10 then [''0123456789'' ! n]
      else str_nat (n div 10) @ [''0123456789'' ! (n mod 10)])"

definition str_int :: "int \<Rightarrow> string" where
  "str_int i = (if i < 0 then CHR ''-'' # str_nat (nat (- i)) else str_nat (nat i))"

text \<open>
  \<^verbatim>\<open>str.isspace\<close> on one code point (the table of CPython's
  \<^verbatim>\<open>_PyUnicode_IsWhitespace\<close>), and \<^verbatim>\<open>str.strip()\<close>.
\<close>

definition py_isspace :: "nat \<Rightarrow> bool" where
  "py_isspace c =
     (c \<in> set [9, 10, 11, 12, 13, 28, 29, 30, 31, 32, 133, 160, 5760,
                8192, 8193, 8194, 8195, 8196, 8197, 8198, 8199, 8200, 8201, 8202,
                8232, 8233, 8239, 8287, 12288])"

definition py_strip :: "py_str \<Rightarrow> py_str" where
  "py_strip s = rev (dropWhile py_isspace (rev (dropWhile py_isspace s)))"

text \<open>
  The slice \<^verbatim>\<open>xs[i:]\<close>: a negative start counts from the end and is clamped
  at the front; \<^verbatim>\<open>xs[-0:]\<close> is \<^verbatim>\<open>xs[0:]\<close>, the whole list.
\<close>

definition py_slice_from :: "int \<Rightarrow> 'a list \<Rightarrow> 'a list" where
  "py_slice_from i xs =
     (if i < 0 then drop (nat (int (length xs) + i)) xs else drop (nat i) xs)"

definition AUDIO_DIR :: string where
  "AUDIO_DIR = ''audio_files''"

definition os_path_join :: "string \<Rightarrow> string \<Rightarrow> string" where
  "os_path_join d f = d @ ''/'' @ f"

definition os_path_basename :: "string \<Rightarrow> string" where
  "os_path_basename p = rev (takeWhile (\<lambda>c. c \<noteq> CHR ''/'') (rev p))"

definition os_path_exists :: "string \<Rightarrow> world \<Rightarrow> bool" where
  "os_path_exists p w = (case audio_dir w of None \<Rightarrow> False | Some fs \<Rightarrow> p \<in> fs)"

definition os_remove :: "string \<Rightarrow> world \<Rightarrow> py_error + world" where
  "os_remove p w =
     (if os_path_exists p w
      then Inr (w\<lparr>audio_dir := map_option (\<lambda>fs. fs - {p}) (audio_dir w)\<rparr>)
      else Inl (FileNotFoundError p))"

text \<open>\<^verbatim>\<open>with open(path, "wb") as f: f.write(data)\<close> for a path in the audio directory.\<close>

definition open_write :: "string \<Rightarrow> world \<Rightarrow> py_error + world" where
  "open_write p w =
     (case audio_dir w of
        None \<Rightarrow> Inl (FileNotFoundError p)
      | Some fs \<Rightarrow> Inr (w\<lparr>audio_dir := Some (insert p fs)\<rparr>))"

text \<open>\<^verbatim>\<open>shutil.rmtree(AUDIO_DIR)\<close> and \<^verbatim>\<open>os.makedirs(AUDIO_DIR, exist_ok=True)\<close>.\<close>

definition shutil_rmtree :: "world \<Rightarrow> world" where
  "shutil_rmtree w = w\<lparr>audio_dir := None\<rparr>"

definition os_makedirs :: "world \<Rightarrow> world" where
  "os_makedirs w = (case audio_dir w of None \<Rightarrow> w\<lparr>audio_dir := Some {}\<rparr> | Some fs \<Rightarrow> w)"

section \<open>The session object (\<^verbatim>\<open>agent.py\<close>)\<close>

text \<open>The constructor, given the audio directory as the object finds it.\<close>

definition VoiceAssistant_init :: "int \<Rightarrow> string set option \<Rightarrow> world" where
  "VoiceAssistant_init n d =
     \<lparr>memory_size = n, conversation_history = [], conversations = [],
      use_context = False, is_custom = False, custom_openai_client = None,
      audio_dir = d\<rparr>"

text \<open>
  The loop of \<^verbatim>\<open>_trim_conversations\<close>, on the memory size, the window and the
  audio directory. \<^verbatim>\<open>pop(0)\<close> on an empty list raises \<^verbatim>\<open>IndexError\<close>,
  which the loop reaches exactly when the memory size is negative.
\<close>

definition remove_if_exists :: "string \<Rightarrow> string set option \<Rightarrow> string set option" where
  "remove_if_exists p d =
     (case d of None \<Rightarrow> None | Some fs \<Rightarrow> if p \<in> fs then Some (fs - {p}) else Some fs)"

fun trim_loop ::
  "int \<Rightarrow> turn list \<Rightarrow> string set option \<Rightarrow> py_error option \<times> turn list \<times> string set option" where
  "trim_loop m [] d = (if 0 > m then (Some IndexError, [], d) else (None, [], d))"
| "trim_loop m (removed # cs) d =
     (if int (length (removed # cs)) > m
      then trim_loop m cs
             (remove_if_exists (output_audio removed) (remove_if_exists (input_audio removed) d))
      else (None, removed # cs, d))"

text \<open>The history trim that \<^verbatim>\<open>_trim_conversations\<close> and \<^verbatim>\<open>get_ai_response\<close> both end with.\<close>

definition trim_history :: "world \<Rightarrow> world" where
  "trim_history w =
     (let max_messages = memory_size w * 2
      in if int (length (conversation_history w)) > max_messages
         then w\<lparr>conversation_history := py_slice_from (- max_messages) (conversation_history w)\<rparr>
         else w)"

definition trim_conversations :: "world \<Rightarrow> (py_error + unit) \<times> world" where
  "trim_conversations w =
     (case trim_loop (memory_size w) (conversations w) (audio_dir w) of
        (Some err, cs, d) \<Rightarrow> (Inl err, w\<lparr>conversations := cs, audio_dir := d\<rparr>)
      | (None, cs, d) \<Rightarrow> (Inr (), trim_history (w\<lparr>conversations := cs, audio_dir := d\<rparr>)))"

definition set_memory_size :: "int \<Rightarrow> bool \<Rightarrow> string option \<Rightarrow> world \<Rightarrow> (py_error + unit) \<times> world" where
  "set_memory_size n custom api_key w =
     (let w1 = w\<lparr>memory_size := n, is_custom := custom\<rparr>;
          w2 = (case api_key of
                  Some (c # cs) \<Rightarrow> w1\<lparr>custom_openai_client := Some (OpenAI (c # cs))\<rparr>
                | _ \<Rightarrow> if \<not> custom then w1\<lparr>custom_openai_client := None\<rparr> else w1)
      in trim_conversations w2)"

definition reset_custom_key :: "world \<Rightarrow> world" where
  "reset_custom_key w = w\<lparr>custom_openai_client := None, is_custom := False\<rparr>"

definition set_use_context :: "bool \<Rightarrow> world \<Rightarrow> world" where
  "set_use_context b w = w\<lparr>use_context := b\<rparr>"

definition system_message :: message where
  "system_message =
     \<lparr>role = ''system'',
      content = py_str_of ''You are a helpful, concise voice assistant. Keep answers short (under 2 sentences) for spoken audio.''\<rparr>"

text \<open>
  The local \<^verbatim>\<open>messages\<close> of \<^verbatim>\<open>get_ai_response\<close> at the moment of the call
  \<^verbatim>\<open>client.chat.completions.create(model="gpt-4o", messages=messages)\<close>.
\<close>

definition llm_messages :: "py_str \<Rightarrow> world \<Rightarrow> message list" where
  "llm_messages text w =
     [system_message]
     @ (if use_context w then conversation_history w else [])
     @ [\<lparr>role = ''user'', content = text\<rparr>]"

definition get_ai_response :: "env \<Rightarrow> py_str \<Rightarrow> world \<Rightarrow> (py_error + py_str) \<times> world" where
  "get_ai_response e text w =
     (let client = (case custom_openai_client w of Some c \<Rightarrow> c | None \<Rightarrow> default_openai_client e)
      in case openai_chat e client (llm_messages text w) of
           Inl err \<Rightarrow> (Inl err, w)
         | Inr reply \<Rightarrow>
             (Inr reply,
              trim_history
                (w\<lparr>conversation_history :=
                     conversation_history w
                     @ [\<lparr>role = ''user'', content = text\<rparr>,
                        \<lparr>role = ''assistant'', content = reply\<rparr>]\<rparr>)))"

definition renumber_conversations :: "world \<Rightarrow> world" where
  "renumber_conversations w =
     w\<lparr>conversations :=
         map (\<lambda>(i, conv). conv\<lparr>turn_id := int i + 1\<rparr>) (enumerate 0 (conversations w))\<rparr>"

definition input_path :: "env \<Rightarrow> string" where
  "input_path e = os_path_join AUDIO_DIR (''input_'' @ str_int (now_ms e) @ ''.wav'')"

definition output_path :: "env \<Rightarrow> string" where
  "output_path e = os_path_join AUDIO_DIR (''output_'' @ str_int (now_ms e) @ ''.mp3'')"

text \<open>
  \<^verbatim>\<open>process_conversation\<close>. The dict it returns is the object it appended, so the
  caller sees the id that \<^verbatim>\<open>_renumber_conversations\<close> wrote, as long as the
  turn is still in the window (it is then the last one); a turn that the trim evicted at
  once keeps the id it was created with.
\<close>

definition process_conversation :: "env \<Rightarrow> bytes \<Rightarrow> world \<Rightarrow> (py_error + result) \<times> world" where
  "process_conversation e audio_data w =
     (let conversation_id = int (length (conversations w)) + 1
      in case open_write (input_path e) w of
           Inl err \<Rightarrow> (Inl err, w)
         | Inr w1 \<Rightarrow>
        (case deepgram_transcribe e audio_data of
           Inl err \<Rightarrow> (Inl err, w1)
         | Inr text \<Rightarrow>
        if py_strip text = []
        then (case os_remove (input_path e) w1 of
                Inl err \<Rightarrow> (Inl err, w1)
              | Inr w2 \<Rightarrow> (Inr (ErrorResult ''No speech detected''), w2))
        else
        (case get_ai_response e text w1 of
           (Inl err, w2) \<Rightarrow> (Inl err, w2)
         | (Inr ai_response, w2) \<Rightarrow>
        (case deepgram_speak e ai_response of
           Inl err \<Rightarrow> (Inl err, w2)
         | Inr tts_audio \<Rightarrow>
        (case open_write (output_path e) w2 of
           Inl err \<Rightarrow> (Inl err, w2)
         | Inr w3 \<Rightarrow>
        (let conversation_data =
               \<lparr>turn_id = conversation_id, user_text = text, ai_text = ai_response,
                input_audio = input_path e, output_audio = output_path e,
                input_audio_url = None, output_audio_url = None\<rparr>;
             w4 = w3\<lparr>conversations := conversations w3 @ [conversation_data]\<rparr>
         in case trim_conversations w4 of
              (Inl err, w5) \<Rightarrow> (Inl err, w5)
            | (Inr u, w5) \<Rightarrow>
                (let w6 = renumber_conversations w5
                 in (Inr (TurnResult
                            (if conversations w6 = [] then conversation_data
                             else last (conversations w6))),
                     w6))))))))"

definition clear_all :: "world \<Rightarrow> world" where
  "clear_all w =
     (let w1 = w\<lparr>conversation_history := [], conversations := []\<rparr>;
          w2 = (if audio_dir w1 \<noteq> None then shutil_rmtree w1 else w1)
      in os_makedirs w2)"

section \<open>The HTTP facade (\<^verbatim>\<open>server.py\<close>)\<close>

record MemorySizeRequest =
  size_req :: int
  is_custom_req :: bool
  api_key_req :: "string option"

datatype body =
    Detail string
  | ErrorContent string
  | TurnContent turn
  | SettingsOk bool
  | MemorySizeOk int bool
  | OkMessage string

type_synonym http_response = "nat \<times> body"

text \<open>An exception that leaves a route is answered by the framework with a plain 500.\<close>

definition internal_server_error :: http_response where
  "internal_server_error = (500, Detail ''Internal Server Error'')"

text \<open>
  \<^verbatim>\<open>process_audio\<close> writes the two URL keys into the dict it got back, which is the
  dict held in the window whenever the turn is still there.
\<close>

definition process_audio :: "env \<Rightarrow> bytes \<Rightarrow> world \<Rightarrow> http_response \<times> world" where
  "process_audio e audio_data w =
     (case process_conversation e audio_data w of
        (Inl err, w') \<Rightarrow> ((500, Detail (str_error err)), w')
      | (Inr (ErrorResult m), w') \<Rightarrow> ((400, ErrorContent m), w')
      | (Inr (TurnResult t), w') \<Rightarrow>
          (let t' = t\<lparr>input_audio_url := Some (''/audio/'' @ os_path_basename (input_audio t)),
                      output_audio_url := Some (''/audio/'' @ os_path_basename (output_audio t))\<rparr>
           in ((200, TurnContent t'),
               if conversations w' = [] then w'
               else w'\<lparr>conversations := butlast (conversations w') @ [t']\<rparr>)))"

definition update_settings :: "bool \<Rightarrow> world \<Rightarrow> http_response \<times> world" where
  "update_settings b w = ((200, SettingsOk b), set_use_context b w)"

definition set_memory_size_route :: "MemorySizeRequest \<Rightarrow> world \<Rightarrow> http_response \<times> world" where
  "set_memory_size_route request w =
     (if is_custom_req request \<and> (size_req request < 1 \<or> size_req request > 100)
      then ((400, Detail ''Custom size must be between 1 and 100''), w)
      else if \<not> is_custom_req request \<and> size_req request \<notin> set [5, 10, 20]
      then ((400, Detail ''Memory size must be 5, 10, or 20''), w)
      else
        (case set_memory_size (size_req request) (is_custom_req request) (api_key_req request) w of
           (Inl err, w') \<Rightarrow> (internal_server_error, w')
         | (Inr u, w') \<Rightarrow> ((200, MemorySizeOk (size_req request) (is_custom_req request)), w')))"

definition reset_custom_key_route :: "world \<Rightarrow> http_response \<times> world" where
  "reset_custom_key_route w =
     (case set_memory_size 5 False None (reset_custom_key w) of
        (Inl err, w') \<Rightarrow> (internal_server_error, w')
      | (Inr u, w') \<Rightarrow>
          ((200, OkMessage ''Custom API key removed. Your key was only stored temporarily and is now gone from the system.''),
           w'))"

definition clear_conversations :: "world \<Rightarrow> http_response \<times> world" where
  "clear_conversations w = ((200, OkMessage ''All conversations cleared''), clear_all w)"

text \<open>
  The requests that can change the state, and the server as a fold over the requests it is
  sent, one at a time (the specification's execution model). The read-only routes
  (conversations, stats, settings, key validation, the index page) leave the state as it is.
\<close>

datatype request =
    Process env bytes
  | UpdateSettings bool
  | SetMemorySize MemorySizeRequest
  | ResetCustomKey
  | Clear

fun handle :: "request \<Rightarrow> world \<Rightarrow> http_response \<times> world" where
  "handle (Process e audio_data) w = process_audio e audio_data w"
| "handle (UpdateSettings b) w = update_settings b w"
| "handle (SetMemorySize r) w = set_memory_size_route r w"
| "handle ResetCustomKey w = reset_custom_key_route w"
| "handle Clear w = clear_conversations w"

definition serve :: "request list \<Rightarrow> world \<Rightarrow> world" where
  "serve rs w = fold (\<lambda>r s. snd (handle r s)) rs w"

text \<open>
  The state when the server starts, given the audio directory as the import of
  \<^verbatim>\<open>agent.py\<close> finds it: the import creates the directory if it is missing (files
  of an earlier run may be in it) and constructs the global
  \<^verbatim>\<open>assistant = VoiceAssistant(memory_size=5)\<close>.
\<close>

definition startup :: "string set option \<Rightarrow> world" where
  "startup d = os_makedirs (VoiceAssistant_init 5 d)"

text \<open>
  What the states the server can reach have in common: the memory size is one the routes
  admit, both lists are within their bounds, and the audio directory exists.
\<close>

definition session_inv :: "world \<Rightarrow> bool" where
  "session_inv w =
     (1 \<le> memory_size w \<and> memory_size w \<le> 100
      \<and> int (length (conversations w)) \<le> memory_size w
      \<and> int (length (conversation_history w)) \<le> 2 * memory_size w
      \<and> audio_dir w \<noteq> None)"

text \<open>What a turn holds besides its id and the URL keys that the facade adds.\<close>

definition turn_content :: "turn \<Rightarrow> py_str \<times> py_str \<times> string \<times> string" where
  "turn_content t = (user_text t, ai_text t, input_audio t, output_audio t)"

section \<open>Facts about the trimming code\<close>

text \<open>
  The loop of \<^verbatim>\<open>_trim_conversations\<close> removes from the front of the window exactly
  as many turns as the window has beyond the memory size, and raises exactly when the
  memory size is negative.
\<close>

lemma trim_loop_convs:
  "fst (snd (trim_loop m cs fs)) = drop (nat (int (length cs) - m)) cs"
proof (induction cs arbitrary: fs)
  case Nil
  show ?case by simp
next
  case (Cons c cs)
  show ?case
  proof (cases "int (length (c # cs)) > m")
    case True
    then have "nat (int (length (c # cs)) - m) = Suc (nat (int (length cs) - m))"
      by simp
    with True Cons show ?thesis by simp
  next
    case False
    then show ?thesis by simp
  qed
qed

lemma trim_loop_err: "fst (trim_loop m cs fs) = (if m < 0 then Some IndexError else None)"
  by (induction cs arbitrary: fs) auto

lemma trim_history_fields:
  "memory_size (trim_history w) = memory_size w"
  "conversations (trim_history w) = conversations w"
  "use_context (trim_history w) = use_context w"
  "is_custom (trim_history w) = is_custom w"
  "custom_openai_client (trim_history w) = custom_openai_client w"
  "audio_dir (trim_history w) = audio_dir w"
  by (simp_all add: trim_history_def Let_def)

lemma trim_history_drop:
  "conversation_history (trim_history w) =
     (if int (length (conversation_history w)) > memory_size w * 2
      then py_slice_from (- (memory_size w * 2)) (conversation_history w)
      else conversation_history w)"
  by (simp add: trim_history_def Let_def)

lemma py_slice_from_suffix: "suffix (py_slice_from i xs) xs"
  by (simp add: py_slice_from_def suffix_drop)

lemma trim_history_length:
  assumes "1 \<le> memory_size w"
  shows "int (length (conversation_history (trim_history w))) \<le> 2 * memory_size w"
proof (cases "int (length (conversation_history w)) > memory_size w * 2")
  case True
  with assms show ?thesis
    by (simp add: trim_history_drop py_slice_from_def)
next
  case False
  then show ?thesis by (simp add: trim_history_drop)
qed

lemma trim_conversations_outcome:
  "fst (trim_conversations w) = (if memory_size w < 0 then Inl IndexError else Inr ())"
proof -
  obtain r cs fs where t: "trim_loop (memory_size w) (conversations w) (audio_dir w) = (r, cs, fs)"
    by (cases "trim_loop (memory_size w) (conversations w) (audio_dir w)") auto
  have "r = (if memory_size w < 0 then Some IndexError else None)"
    using trim_loop_err [of "memory_size w" "conversations w" "audio_dir w"] t by simp
  with t show ?thesis by (simp add: trim_conversations_def)
qed

lemma trim_conversations_fields:
  "memory_size (snd (trim_conversations w)) = memory_size w"
  "use_context (snd (trim_conversations w)) = use_context w"
  "is_custom (snd (trim_conversations w)) = is_custom w"
  "custom_openai_client (snd (trim_conversations w)) = custom_openai_client w"
  by (simp_all add: trim_conversations_def trim_history_fields split: prod.splits option.splits)

lemma trim_conversations_window:
  "conversations (snd (trim_conversations w)) =
     drop (nat (int (length (conversations w)) - memory_size w)) (conversations w)"
proof -
  obtain r cs fs where t: "trim_loop (memory_size w) (conversations w) (audio_dir w) = (r, cs, fs)"
    by (cases "trim_loop (memory_size w) (conversations w) (audio_dir w)") auto
  have "cs = drop (nat (int (length (conversations w)) - memory_size w)) (conversations w)"
    using trim_loop_convs [of "memory_size w" "conversations w" "audio_dir w"] t by simp
  with t show ?thesis
    by (simp add: trim_conversations_def trim_history_fields split: option.splits)
qed

lemma trim_conversations_history:
  "conversation_history (snd (trim_conversations w)) =
     (if memory_size w < 0 then conversation_history w
      else conversation_history (trim_history w))"
proof -
  obtain r cs fs where t: "trim_loop (memory_size w) (conversations w) (audio_dir w) = (r, cs, fs)"
    by (cases "trim_loop (memory_size w) (conversations w) (audio_dir w)") auto
  have "r = (if memory_size w < 0 then Some IndexError else None)"
    using trim_loop_err [of "memory_size w" "conversations w" "audio_dir w"] t by simp
  with t show ?thesis
    by (simp add: trim_conversations_def trim_history_drop)
qed

lemma remove_if_exists_None: "(remove_if_exists p d = None) = (d = None)"
  by (simp add: remove_if_exists_def split: option.splits)

lemma trim_loop_dir: "(snd (snd (trim_loop m cs d)) = None) = (d = None)"
  by (induction cs arbitrary: d) (simp_all add: remove_if_exists_None)

lemma trim_conversations_dir:
  "(audio_dir (snd (trim_conversations w)) = None) = (audio_dir w = None)"
proof -
  obtain r cs d where t: "trim_loop (memory_size w) (conversations w) (audio_dir w) = (r, cs, d)"
    by (cases "trim_loop (memory_size w) (conversations w) (audio_dir w)") auto
  have "(d = None) = (audio_dir w = None)"
    using trim_loop_dir [of "memory_size w" "conversations w" "audio_dir w"] t by simp
  with t show ?thesis
    by (simp add: trim_conversations_def trim_history_fields split: option.splits)
qed

section \<open>Clearing the session\<close>

text \<open>
  Claim C3. For every state of the session, \<^verbatim>\<open>clear_all\<close> leaves both in-memory
  lists empty (the conversation window and the message history), and afterwards the audio
  directory exists and holds no file.
\<close>

theorem clear_all_clears:
  "conversations (clear_all w) = [] \<and> conversation_history (clear_all w) = []
   \<and> audio_dir (clear_all w) = Some {}"
  by (simp add: clear_all_def Let_def shutil_rmtree_def os_makedirs_def split: option.splits)

text \<open>
  Claim C8. For every state of the session, \<^verbatim>\<open>clear_all\<close> leaves the settings as
  they were: the memory size, the context flag, the custom-size flag and the custom OpenAI
  client are the same after the call as before. Nothing but the two conversation lists and the
  audio directory is affected: putting those three back gives the state before the call.
\<close>

theorem clear_all_frame:
  "memory_size (clear_all w) = memory_size w
   \<and> use_context (clear_all w) = use_context w
   \<and> is_custom (clear_all w) = is_custom w
   \<and> custom_openai_client (clear_all w) = custom_openai_client w
   \<and> (clear_all w)\<lparr>conversation_history := conversation_history w,
                     conversations := conversations w,
                     audio_dir := audio_dir w\<rparr> = w"
  by (simp add: clear_all_def Let_def shutil_rmtree_def os_makedirs_def split: option.splits)

section \<open>Setting the memory size\<close>

lemma set_memory_size_fields:
  "memory_size (snd (set_memory_size n c k w)) = n"
  "is_custom (snd (set_memory_size n c k w)) = c"
  "use_context (snd (set_memory_size n c k w)) = use_context w"
  by (simp_all add: set_memory_size_def Let_def trim_conversations_fields
      split: option.splits list.splits)

lemma set_memory_size_client:
  "custom_openai_client (snd (set_memory_size n c k w)) =
     (case k of Some (x # xs) \<Rightarrow> Some (OpenAI (x # xs))
      | _ \<Rightarrow> if \<not> c then None else custom_openai_client w)"
  by (simp add: set_memory_size_def Let_def trim_conversations_fields
      split: option.splits list.splits)

lemma set_memory_size_outcome:
  "fst (set_memory_size n c k w) = (if n < 0 then Inl IndexError else Inr ())"
  by (simp add: set_memory_size_def Let_def trim_conversations_outcome
      split: option.splits list.splits)

lemma set_memory_size_window:
  "conversations (snd (set_memory_size n c k w)) =
     drop (nat (int (length (conversations w)) - n)) (conversations w)"
  by (simp add: set_memory_size_def Let_def trim_conversations_window
      split: option.splits list.splits)

lemma set_memory_size_history:
  "conversation_history (snd (set_memory_size n c k w)) =
     (if n < 0 then conversation_history w
      else if int (length (conversation_history w)) > n * 2
      then py_slice_from (- (n * 2)) (conversation_history w)
      else conversation_history w)"
  by (simp add: set_memory_size_def Let_def trim_conversations_history trim_history_drop
      split: option.splits list.splits)

text \<open>
  Outside the sizes that the routes admit, the method behaves differently: a negative size
  raises (see \<open>set_memory_size_outcome\<close>), and size 0 leaves the message history whole,
  since the slice \<^verbatim>\<open>[-0:]\<close> is the whole list.
\<close>

lemma set_memory_size_zero_history:
  "conversation_history (snd (set_memory_size 0 c k w)) = conversation_history w"
  by (simp add: set_memory_size_history py_slice_from_def)

lemma set_memory_size_dir:
  "(audio_dir (snd (set_memory_size n c k w)) = None) = (audio_dir w = None)"
  by (simp add: set_memory_size_def Let_def trim_conversations_dir
      split: option.splits list.splits)

lemma set_memory_size_case:
  "0 \<le> n \<Longrightarrow>
   (case set_memory_size n c k w of (Inl err, w') \<Rightarrow> f err w' | (Inr u, w') \<Rightarrow> g w') =
     g (snd (set_memory_size n c k w))"
  using set_memory_size_outcome [of n c k w]
  by (cases "set_memory_size n c k w") (auto split: sum.splits)

lemma nat_int_diff: "nat (int a - int b) = a - b"
  by arith

text \<open>
  Claim C10. For every session state, the route that resets the custom key answers 200 and
  leaves the custom client unset and the custom-size flag false; it also sets the memory size
  to 5, which cuts the conversation window down to its last 5 turns at most and the message
  history down to its last 10 entries at most.
\<close>

theorem reset_custom_key_route_resets:
  "fst (fst (reset_custom_key_route w)) = 200
   \<and> custom_openai_client (snd (reset_custom_key_route w)) = None
   \<and> is_custom (snd (reset_custom_key_route w)) = False
   \<and> memory_size (snd (reset_custom_key_route w)) = 5
   \<and> conversations (snd (reset_custom_key_route w)) =
       drop (length (conversations w) - 5) (conversations w)
   \<and> length (conversations (snd (reset_custom_key_route w))) \<le> 5
   \<and> conversation_history (snd (reset_custom_key_route w)) =
       drop (length (conversation_history w) - 10) (conversation_history w)
   \<and> length (conversation_history (snd (reset_custom_key_route w))) \<le> 10"
proof -
  let ?s = "set_memory_size 5 False None (reset_custom_key w)"
  have r: "reset_custom_key_route w = ((200, OkMessage ''Custom API key removed. Your key was only stored temporarily and is now gone from the system.''), snd ?s)"
    by (simp add: reset_custom_key_route_def set_memory_size_case)
  have c: "conversations (snd ?s) = drop (length (conversations w) - 5) (conversations w)"
    using nat_int_diff [of "length (conversations w)" 5]
    by (simp add: set_memory_size_window reset_custom_key_def)
  have h: "conversation_history (snd ?s) =
      drop (length (conversation_history w) - 10) (conversation_history w)"
    using nat_int_diff [of "length (conversation_history w)" 10]
    by (simp add: set_memory_size_history reset_custom_key_def py_slice_from_def)
  show ?thesis
    unfolding r
    by (simp add: c h set_memory_size_fields set_memory_size_client) arith
qed

text \<open>
  Claim C4. The memory-size route rejects with status 400 exactly the invalid sizes, and
  leaves the state alone when it does: with the custom flag set, a size is valid when it lies
  in 1..100; without it, when it is 5, 10 or 20. A request with a valid size is answered 200,
  and the state it leaves is the one \<^verbatim>\<open>VoiceAssistant.set_memory_size\<close> produces
  from the request's size, flag and key.
\<close>

theorem set_memory_size_route_validation:
  "set_memory_size_route r w =
     (if (if is_custom_req r then 1 \<le> size_req r \<and> size_req r \<le> 100
          else size_req r \<in> {5, 10, 20})
      then ((200, MemorySizeOk (size_req r) (is_custom_req r)),
            snd (set_memory_size (size_req r) (is_custom_req r) (api_key_req r) w))
      else ((400, Detail (if is_custom_req r then ''Custom size must be between 1 and 100''
                         else ''Memory size must be 5, 10, or 20'')), w))"
  by (auto simp: set_memory_size_route_def set_memory_size_case)

section \<open>One conversation turn\<close>

text \<open>
  \<^verbatim>\<open>get_ai_response\<close> changes nothing but the message history, and leaves it within
  twice the memory size whenever the memory size is positive.
\<close>

lemma get_ai_response_fields:
  "memory_size (snd (get_ai_response e t w)) = memory_size w"
  "conversations (snd (get_ai_response e t w)) = conversations w"
  "use_context (snd (get_ai_response e t w)) = use_context w"
  "is_custom (snd (get_ai_response e t w)) = is_custom w"
  "custom_openai_client (snd (get_ai_response e t w)) = custom_openai_client w"
  "audio_dir (snd (get_ai_response e t w)) = audio_dir w"
  by (simp_all add: get_ai_response_def Let_def trim_history_fields split: sum.splits)

lemma trim_history_keeps:
  assumes "1 \<le> memory_size w"
  shows "conversation_history (trim_history w) =
     drop (length (conversation_history w) - nat (2 * memory_size w)) (conversation_history w)"
proof (cases "int (length (conversation_history w)) > memory_size w * 2")
  case True
  with assms show ?thesis
    by (simp add: trim_history_drop py_slice_from_def nat_diff_distrib mult.commute)
next
  case False
  then have "length (conversation_history w) - nat (2 * memory_size w) = 0" by simp
  with False show ?thesis by (simp add: trim_history_drop)
qed

lemma get_ai_response_history:
  "conversation_history (snd (get_ai_response e t w)) =
     (case fst (get_ai_response e t w) of
        Inl err \<Rightarrow> conversation_history w
      | Inr reply \<Rightarrow>
          conversation_history
            (trim_history
              (w\<lparr>conversation_history :=
                   conversation_history w
                   @ [\<lparr>role = ''user'', content = t\<rparr>,
                      \<lparr>role = ''assistant'', content = reply\<rparr>]\<rparr>)))"
  by (simp add: get_ai_response_def Let_def split: sum.splits)

lemma get_ai_response_length:
  assumes "1 \<le> memory_size w" "int (length (conversation_history w)) \<le> 2 * memory_size w"
  shows "int (length (conversation_history (snd (get_ai_response e t w)))) \<le> 2 * memory_size w"
proof (cases "fst (get_ai_response e t w)")
  case (Inl err)
  with assms show ?thesis by (simp add: get_ai_response_history)
next
  case (Inr reply)
  let ?w = "w\<lparr>conversation_history :=
                   conversation_history w
                   @ [\<lparr>role = ''user'', content = t\<rparr>,
                      \<lparr>role = ''assistant'', content = reply\<rparr>]\<rparr>"
  have "int (length (conversation_history (trim_history ?w))) \<le> 2 * memory_size ?w"
    by (rule trim_history_length) (use assms in simp)
  with Inr show ?thesis by (simp add: get_ai_response_history)
qed

lemma get_ai_response_inv: "session_inv w \<Longrightarrow> session_inv (snd (get_ai_response e t w))"
  using get_ai_response_length [of w e t]
  by (simp add: session_inv_def get_ai_response_fields)

lemma renumber_fields:
  "memory_size (renumber_conversations w) = memory_size w"
  "conversation_history (renumber_conversations w) = conversation_history w"
  "use_context (renumber_conversations w) = use_context w"
  "is_custom (renumber_conversations w) = is_custom w"
  "custom_openai_client (renumber_conversations w) = custom_openai_client w"
  "audio_dir (renumber_conversations w) = audio_dir w"
  "length (conversations (renumber_conversations w)) = length (conversations w)"
  by (simp_all add: renumber_conversations_def enumerate_eq_zip)

lemma renumber_content:
  "map turn_content (conversations (renumber_conversations w)) = map turn_content (conversations w)"
  by (auto simp: renumber_conversations_def enumerate_eq_zip turn_content_def
      intro!: nth_equalityI)

lemma renumber_ids:
  "map turn_id (conversations (renumber_conversations w)) =
     map (\<lambda>i. int i + 1) [0..<length (conversations w)]"
  by (auto simp: renumber_conversations_def enumerate_eq_zip intro!: nth_equalityI)

lemma trim_conversations_inv:
  assumes "1 \<le> memory_size w" "memory_size w \<le> 100" "audio_dir w \<noteq> None"
  shows "session_inv (snd (trim_conversations w))"
  using assms trim_history_length [of w]
  by (simp add: session_inv_def trim_conversations_fields trim_conversations_window
      trim_conversations_history trim_conversations_dir)

text \<open>
  The paths through \<^verbatim>\<open>process_conversation\<close>, as a rule: a property of its
  outcome and final state holds if it holds where the input file cannot be written, where
  transcription raises, where no speech is found, where the language model or the speech
  synthesis raises, and where the turn is appended and the window trimmed.
\<close>

lemma process_conversation_rule:
  fixes e a w
  defines "w1 \<equiv> w\<lparr>audio_dir := Some (insert (input_path e) (the (audio_dir w)))\<rparr>"
  assumes no_dir: "audio_dir w = None \<Longrightarrow> P (Inl (FileNotFoundError (input_path e)), w)"
    and no_transcript:
      "\<And>err. audio_dir w \<noteq> None \<Longrightarrow> deepgram_transcribe e a = Inl err \<Longrightarrow> P (Inl err, w1)"
    and no_speech:
      "\<And>tx. audio_dir w \<noteq> None \<Longrightarrow> deepgram_transcribe e a = Inr tx \<Longrightarrow>
         py_strip tx = [] \<Longrightarrow>
         P (Inr (ErrorResult ''No speech detected''),
            w1\<lparr>audio_dir := Some (insert (input_path e) (the (audio_dir w)) - {input_path e})\<rparr>)"
    and no_reply:
      "\<And>tx err w2. audio_dir w \<noteq> None \<Longrightarrow> deepgram_transcribe e a = Inr tx \<Longrightarrow>
         py_strip tx \<noteq> [] \<Longrightarrow> get_ai_response e tx w1 = (Inl err, w2) \<Longrightarrow> P (Inl err, w2)"
    and no_audio:
      "\<And>tx reply err w2. audio_dir w \<noteq> None \<Longrightarrow> deepgram_transcribe e a = Inr tx \<Longrightarrow>
         py_strip tx \<noteq> [] \<Longrightarrow> get_ai_response e tx w1 = (Inr reply, w2) \<Longrightarrow>
         deepgram_speak e reply = Inl err \<Longrightarrow> P (Inl err, w2)"
    and appended:
      "\<And>tx reply w2 w4 d r5 w5.
         audio_dir w \<noteq> None \<Longrightarrow>
         deepgram_transcribe e a = Inr tx \<Longrightarrow>
         py_strip tx \<noteq> [] \<Longrightarrow>
         get_ai_response e tx w1 = (Inr reply, w2) \<Longrightarrow>
         d = \<lparr>turn_id = int (length (conversations w)) + 1, user_text = tx,
               ai_text = reply, input_audio = input_path e, output_audio = output_path e,
               input_audio_url = None, output_audio_url = None\<rparr> \<Longrightarrow>
         w4 = w2\<lparr>audio_dir := Some (insert (output_path e) (the (audio_dir w2))),
                 conversations := conversations w2 @ [d]\<rparr> \<Longrightarrow>
         trim_conversations w4 = (r5, w5) \<Longrightarrow>
         P (case r5 of
              Inl err \<Rightarrow> (Inl err, w5)
            | Inr u \<Rightarrow>
               (Inr (TurnResult
                  (if conversations (renumber_conversations w5) = [] then d
                   else last (conversations (renumber_conversations w5)))),
                renumber_conversations w5))"
  shows "P (process_conversation e a w)"
proof (cases "audio_dir w")
  case None
  then show ?thesis using no_dir by (simp add: process_conversation_def open_write_def)
next
  case (Some fs)
  then have ow: "open_write (input_path e) w = Inr w1"
    by (simp add: open_write_def w1_def)
  have d: "audio_dir w \<noteq> None" using Some by simp
  show ?thesis
  proof (cases "deepgram_transcribe e a")
    case (Inl err)
    then show ?thesis using ow no_transcript [OF d] by (simp add: process_conversation_def)
  next
    case (Inr tx)
    note tr = Inr
    show ?thesis
    proof (cases "py_strip tx = []")
      case True
      have "os_remove (input_path e) w1 =
          Inr (w1\<lparr>audio_dir := Some (insert (input_path e) (the (audio_dir w)) - {input_path e})\<rparr>)"
        by (simp add: os_remove_def os_path_exists_def w1_def)
      with True tr ow no_speech [OF d tr True] show ?thesis
        by (simp add: process_conversation_def)
    next
      case False
      obtain r w2 where g: "get_ai_response e tx w1 = (r, w2)"
        by (cases "get_ai_response e tx w1") auto
      have dw2: "audio_dir w2 = audio_dir w1"
        using get_ai_response_fields(6) [of e tx w1] g by simp
      show ?thesis
      proof (cases r)
        case (Inl err)
        with False tr ow g no_reply [OF d tr False, of err w2] show ?thesis
          by (simp add: process_conversation_def)
      next
        case (Inr reply)
        note rp = Inr
        note g' = g [unfolded rp]
        show ?thesis
        proof (cases "deepgram_speak e reply")
          case (Inl err)
          with False tr ow g rp no_audio [OF d tr False g', of err] show ?thesis
            by (simp add: process_conversation_def)
        next
          case (Inr tts)
          define dt where "dt = \<lparr>turn_id = int (length (conversations w)) + 1, user_text = tx,
               ai_text = reply, input_audio = input_path e, output_audio = output_path e,
               input_audio_url = None, output_audio_url = None\<rparr>"
          define w4 where "w4 = w2\<lparr>audio_dir := Some (insert (output_path e) (the (audio_dir w2))),
                 conversations := conversations w2 @ [dt]\<rparr>"
          have ow2: "open_write (output_path e) w2 =
              Inr (w2\<lparr>audio_dir := Some (insert (output_path e) (the (audio_dir w2)))\<rparr>)"
            using dw2 by (simp add: open_write_def w1_def)
          obtain r5 w5 where t: "trim_conversations w4 = (r5, w5)"
            by (cases "trim_conversations w4") auto
          note p = appended [OF d tr False g' dt_def w4_def t]
          show ?thesis
            using False tr ow g rp Inr ow2 t [unfolded w4_def dt_def] p [unfolded dt_def]
            by (cases r5) (simp_all add: process_conversation_def Let_def)
        qed
      qed
    qed
  qed
qed

lemma process_conversation_inv:
  assumes "session_inv w"
  shows "session_inv (snd (process_conversation e a w))"
proof (rule process_conversation_rule [where P = "\<lambda>p. session_inv (snd p)"])
  show "session_inv (snd (Inl (FileNotFoundError (input_path e)), w))"
    using assms by simp
next
  fix err
  show "session_inv (snd (Inl err, w\<lparr>audio_dir := Some (insert (input_path e) (the (audio_dir w)))\<rparr>))"
    using assms by (simp add: session_inv_def)
next
  fix tx
  show "session_inv (snd (Inr (ErrorResult ''No speech detected''),
      w\<lparr>audio_dir := Some (insert (input_path e) (the (audio_dir w)))\<rparr>
       \<lparr>audio_dir := Some (insert (input_path e) (the (audio_dir w)) - {input_path e})\<rparr>))"
    using assms by (simp add: session_inv_def)
next
  let ?w1 = "w\<lparr>audio_dir := Some (insert (input_path e) (the (audio_dir w)))\<rparr>"
  have i1: "session_inv ?w1" using assms by (simp add: session_inv_def)
  {
    fix tx r w2
    assume g: "get_ai_response e tx ?w1 = (r, w2)"
    have "session_inv w2" using get_ai_response_inv [OF i1, of e tx] g by simp
  }
  note i2 = this
  {
    fix tx err w2
    assume "get_ai_response e tx ?w1 = (Inl err, w2)"
    then show "session_inv (snd (Inl err, w2))" using i2 by simp
  }
  {
    fix tx reply err w2
    assume "get_ai_response e tx ?w1 = (Inr reply, w2)"
    then show "session_inv (snd (Inl err, w2))" using i2 by simp
  }
  {
    fix tx reply w2 w4 d r5 w5
    assume g: "get_ai_response e tx ?w1 = (Inr reply, w2)"
      and w4: "w4 = w2\<lparr>audio_dir := Some (insert (output_path e) (the (audio_dir w2))),
                 conversations := conversations w2 @ [d]\<rparr>"
      and t: "trim_conversations w4 = (r5, w5)"
    have "session_inv w2" using i2 g by simp
    then have "1 \<le> memory_size w4" "memory_size w4 \<le> 100" "audio_dir w4 \<noteq> None"
      by (simp_all add: session_inv_def w4)
    then have "session_inv (snd (trim_conversations w4))" by (rule trim_conversations_inv)
    then have i5: "session_inv w5" using t by simp
    then have "session_inv (renumber_conversations w5)"
      by (simp add: session_inv_def renumber_fields)
    with i5 show "session_inv (snd (case r5 of
              Inl err \<Rightarrow> (Inl err, w5)
            | Inr u \<Rightarrow>
               (Inr (TurnResult
                  (if conversations (renumber_conversations w5) = [] then d
                   else last (conversations (renumber_conversations w5)))),
                renumber_conversations w5)))"
      by (cases r5) simp_all
  }
qed

lemma process_conversation_returned:
  "fst (process_conversation e a w) = Inr (TurnResult t) \<Longrightarrow>
   conversations (snd (process_conversation e a w)) \<noteq> [] \<Longrightarrow>
   t = last (conversations (snd (process_conversation e a w)))"
  by (rule process_conversation_rule
      [where P = "\<lambda>p. fst p = Inr (TurnResult t) \<longrightarrow> conversations (snd p) \<noteq> []
                    \<longrightarrow> t = last (conversations (snd p))" and e = e and a = a and w = w,
       THEN mp, THEN mp])
    (auto split: sum.splits)

section \<open>The states the server reaches\<close>

lemma process_audio_fields:
  "memory_size (snd (process_audio e a w)) = memory_size (snd (process_conversation e a w))"
  "conversation_history (snd (process_audio e a w)) =
     conversation_history (snd (process_conversation e a w))"
  "use_context (snd (process_audio e a w)) = use_context (snd (process_conversation e a w))"
  "is_custom (snd (process_audio e a w)) = is_custom (snd (process_conversation e a w))"
  "custom_openai_client (snd (process_audio e a w)) =
     custom_openai_client (snd (process_conversation e a w))"
  "audio_dir (snd (process_audio e a w)) = audio_dir (snd (process_conversation e a w))"
  "length (conversations (snd (process_audio e a w))) =
     length (conversations (snd (process_conversation e a w)))"
  by (auto simp: process_audio_def Let_def split: prod.splits sum.splits result.splits)

lemma process_audio_content:
  "map turn_content (conversations (snd (process_audio e a w))) =
     map turn_content (conversations (snd (process_conversation e a w)))"
proof (cases "process_conversation e a w")
  case (Pair r w')
  show ?thesis
  proof (cases r)
    case (Inl err)
    with Pair show ?thesis by (simp add: process_audio_def)
  next
    case (Inr res)
    show ?thesis
    proof (cases res)
      case (ErrorResult m)
      with Pair Inr show ?thesis by (simp add: process_audio_def)
    next
      case (TurnResult t)
      show ?thesis
      proof (cases "conversations w' = []")
        case True
        with Pair Inr TurnResult show ?thesis by (simp add: process_audio_def Let_def)
      next
        case False
        have "t = last (conversations w')"
          using process_conversation_returned [of e a w t] Pair Inr TurnResult False by simp
        then have "map turn_content (butlast (conversations w'))
            @ [turn_content (t\<lparr>input_audio_url := Some (''/audio/'' @ os_path_basename (input_audio t)),
                      output_audio_url := Some (''/audio/'' @ os_path_basename (output_audio t))\<rparr>)]
            = map turn_content (butlast (conversations w') @ [last (conversations w')])"
          by (simp add: turn_content_def)
        with Pair Inr TurnResult False show ?thesis
          by (simp add: process_audio_def Let_def)
      qed
    qed
  qed
qed

lemma process_audio_inv: "session_inv w \<Longrightarrow> session_inv (snd (process_audio e a w))"
  using process_conversation_inv [of w e a]
  by (simp add: session_inv_def process_audio_fields)

lemma set_memory_size_inv:
  assumes "1 \<le> n" "n \<le> 100" "audio_dir w \<noteq> None"
  shows "session_inv (snd (set_memory_size n c k w))"
proof -
  have "int (length (conversation_history (snd (set_memory_size n c k w)))) \<le> 2 * n"
    using assms(1) by (simp add: set_memory_size_history py_slice_from_def)
  with assms show ?thesis
    by (simp add: session_inv_def set_memory_size_fields set_memory_size_window
        set_memory_size_dir)
qed

lemma set_memory_size_route_state:
  "snd (set_memory_size_route r w) =
     (if (if is_custom_req r then 1 \<le> size_req r \<and> size_req r \<le> 100
          else size_req r \<in> {5, 10, 20})
      then snd (set_memory_size (size_req r) (is_custom_req r) (api_key_req r) w)
      else w)"
  by (auto simp: set_memory_size_route_def set_memory_size_case)

lemma reset_custom_key_route_state:
  "snd (reset_custom_key_route w) = snd (set_memory_size 5 False None (reset_custom_key w))"
  by (simp add: reset_custom_key_route_def set_memory_size_case)

lemma handle_inv: "session_inv w \<Longrightarrow> session_inv (snd (handle r w))"
proof (cases r)
  case (Process e a)
  assume "session_inv w"
  with Process show ?thesis by (simp add: process_audio_inv)
next
  case (UpdateSettings b)
  assume "session_inv w"
  with UpdateSettings show ?thesis
    by (simp add: update_settings_def set_use_context_def session_inv_def)
next
  case (SetMemorySize q)
  assume i: "session_inv w"
  then have "audio_dir w \<noteq> None" by (simp add: session_inv_def)
  with i SetMemorySize show ?thesis
    by (auto simp: set_memory_size_route_state intro!: set_memory_size_inv)
next
  case ResetCustomKey
  assume "session_inv w"
  then have "audio_dir (reset_custom_key w) \<noteq> None"
    by (simp add: session_inv_def reset_custom_key_def)
  with ResetCustomKey show ?thesis
    by (simp add: reset_custom_key_route_state set_memory_size_inv)
next
  case Clear
  assume "session_inv w"
  with Clear show ?thesis
    by (simp add: clear_conversations_def session_inv_def clear_all_def Let_def
        shutil_rmtree_def os_makedirs_def split: option.splits)
qed

lemma startup_inv: "session_inv (startup d)"
  by (simp add: startup_def VoiceAssistant_init_def os_makedirs_def session_inv_def
      split: option.splits)

lemma serve_inv: "session_inv w \<Longrightarrow> session_inv (serve rs w)"
  by (induction rs rule: rev_induct) (simp_all add: serve_def handle_inv)

lemma process_conversation_window:
  "\<exists>k new. length new \<le> 1 \<and>
     map turn_content (conversations (snd (process_conversation e a w))) =
       drop k (map turn_content (conversations w) @ new)"
proof (rule process_conversation_rule
    [where P = "\<lambda>p. \<exists>k new. length new \<le> 1 \<and>
       map turn_content (conversations (snd p)) = drop k (map turn_content (conversations w) @ new)"])
  let ?same = "\<lambda>w'. conversations w' = conversations w"
  have same: "\<exists>k new. length new \<le> 1 \<and>
       map turn_content (conversations w') = drop k (map turn_content (conversations w) @ new)"
    if "?same w'" for w'
  proof (intro exI conjI)
    show "length ([] :: (py_str \<times> py_str \<times> string \<times> string) list) \<le> 1" by simp
    show "map turn_content (conversations w') = drop 0 (map turn_content (conversations w) @ [])"
      using that by simp
  qed
  let ?w1 = "w\<lparr>audio_dir := Some (insert (input_path e) (the (audio_dir w)))\<rparr>"
  show "\<exists>k new. length new \<le> 1 \<and>
       map turn_content (conversations (snd (Inl (FileNotFoundError (input_path e)), w))) =
       drop k (map turn_content (conversations w) @ new)"
    using same [of w] by simp
  show "\<exists>k new. length new \<le> 1 \<and>
       map turn_content (conversations (snd (Inl err, ?w1))) =
       drop k (map turn_content (conversations w) @ new)" for err
    using same [of ?w1] by simp
  show "\<exists>k new. length new \<le> 1 \<and>
       map turn_content (conversations (snd (Inr (ErrorResult ''No speech detected''),
          ?w1\<lparr>audio_dir := Some (insert (input_path e) (the (audio_dir w)) - {input_path e})\<rparr>))) =
       drop k (map turn_content (conversations w) @ new)"
    using same [of ?w1] by simp
  show "\<exists>k new. length new \<le> 1 \<and>
       map turn_content (conversations (snd (Inl err, w2))) =
       drop k (map turn_content (conversations w) @ new)"
    if "get_ai_response e tx ?w1 = (Inl err, w2)" for tx err w2
    using same [of w2] get_ai_response_fields(2) [of e tx ?w1] that by simp
  show "\<exists>k new. length new \<le> 1 \<and>
       map turn_content (conversations (snd (Inl err, w2))) =
       drop k (map turn_content (conversations w) @ new)"
    if "get_ai_response e tx ?w1 = (Inr reply, w2)" for tx reply err w2
    using same [of w2] get_ai_response_fields(2) [of e tx ?w1] that by simp
  show "\<exists>k new. length new \<le> 1 \<and>
       map turn_content (conversations (snd (case r5 of
              Inl err \<Rightarrow> (Inl err, w5)
            | Inr u \<Rightarrow>
               (Inr (TurnResult
                  (if conversations (renumber_conversations w5) = [] then d
                   else last (conversations (renumber_conversations w5)))),
                renumber_conversations w5)))) =
       drop k (map turn_content (conversations w) @ new)"
    if g: "get_ai_response e tx ?w1 = (Inr reply, w2)"
      and w4: "w4 = w2\<lparr>audio_dir := Some (insert (output_path e) (the (audio_dir w2))),
                 conversations := conversations w2 @ [d]\<rparr>"
      and t: "trim_conversations w4 = (r5, w5)"
    for tx reply w2 w4 d r5 w5
  proof -
    have c2: "conversations w2 = conversations w"
      using get_ai_response_fields(2) [of e tx ?w1] g by simp
    have "conversations w5 =
        drop (nat (int (length (conversations w4)) - memory_size w4)) (conversations w4)"
      using trim_conversations_window [of w4] t by simp
    then have "map turn_content (conversations w5) =
        drop (nat (int (length (conversations w4)) - memory_size w4))
          (map turn_content (conversations w4))"
      by (simp only: drop_map)
    moreover have "map turn_content (conversations w4) =
        map turn_content (conversations w) @ [turn_content d]"
      by (simp add: w4 c2)
    ultimately have c5: "map turn_content (conversations w5) =
        drop (nat (int (length (conversations w4)) - memory_size w4))
          (map turn_content (conversations w) @ [turn_content d])"
      by (simp only:)
    have "map turn_content (conversations (snd (case r5 of
              Inl err \<Rightarrow> (Inl err, w5)
            | Inr u \<Rightarrow>
               (Inr (TurnResult
                  (if conversations (renumber_conversations w5) = [] then d
                   else last (conversations (renumber_conversations w5)))),
                renumber_conversations w5)))) = map turn_content (conversations w5)"
      by (cases r5) (simp_all add: renumber_content)
    with c5 show ?thesis
      by (intro exI [of _ "nat (int (length (conversations w4)) - memory_size w4)"]
          exI [of _ "[turn_content d]"]) simp
  qed
qed

lemma handle_window:
  "\<exists>k new. length new \<le> 1 \<and>
     map turn_content (conversations (snd (handle r w))) =
       drop k (map turn_content (conversations w) @ new)"
proof (cases r)
  case (Process e a)
  then show ?thesis
    using process_conversation_window [of e a w] by (simp add: process_audio_content)
next
  case (UpdateSettings b)
  have "map turn_content (conversations (snd (handle r w))) =
      drop 0 (map turn_content (conversations w) @ [])"
    using UpdateSettings by (simp add: update_settings_def set_use_context_def)
  then show ?thesis by (intro exI [of _ 0] exI [of _ "[]"]) simp
next
  case (SetMemorySize q)
  have "\<exists>k. map turn_content (conversations (snd (handle r w))) =
      drop k (map turn_content (conversations w) @ [])"
    using SetMemorySize
    by (auto simp: set_memory_size_route_state set_memory_size_window drop_map
        intro: exI [of _ 0])
  then show ?thesis by (auto intro!: exI [of _ "[]"])
next
  case ResetCustomKey
  have "map turn_content (conversations (snd (handle r w))) =
      drop (nat (int (length (conversations w)) - 5)) (map turn_content (conversations w) @ [])"
    using ResetCustomKey
    by (simp add: reset_custom_key_route_state set_memory_size_window drop_map
        reset_custom_key_def)
  then show ?thesis
    by (intro exI [of _ "nat (int (length (conversations w)) - 5)"] exI [of _ "[]"]) simp
next
  case Clear
  have "map turn_content (conversations (snd (handle r w))) =
      drop (length (conversations w)) (map turn_content (conversations w) @ [])"
    using Clear
    by (simp add: clear_conversations_def clear_all_def Let_def shutil_rmtree_def
        os_makedirs_def split: option.splits)
  then show ?thesis
    by (intro exI [of _ "length (conversations w)"] exI [of _ "[]"]) simp
qed

text \<open>
  Claim C1. Whatever requests the server has handled since it started, the conversation
  window is no longer than the memory size. Turns leave the window from the front only:
  \<^verbatim>\<open>set_memory_size\<close> keeps the window without its oldest turns, as many as
  exceed the new size; and after \<^verbatim>\<open>process_conversation\<close>, as after any request
  in any state, the window (ids and URL keys aside) is the old window, extended by at most
  one new turn at the back, with some number of turns dropped at the front.
\<close>

theorem window_bounded_fifo:
  "int (length (conversations (serve rs (startup d)))) \<le> memory_size (serve rs (startup d))
   \<and> conversations (snd (set_memory_size n c k w)) =
       drop (nat (int (length (conversations w)) - n)) (conversations w)
   \<and> (\<exists>j new. length new \<le> 1 \<and>
         map turn_content (conversations (snd (process_conversation e a w))) =
           drop j (map turn_content (conversations w) @ new))
   \<and> (\<exists>j new. length new \<le> 1 \<and>
         map turn_content (conversations (snd (handle r w))) =
           drop j (map turn_content (conversations w) @ new))"
proof -
  have "session_inv (serve rs (startup d))"
    by (rule serve_inv) (rule startup_inv)
  then have "int (length (conversations (serve rs (startup d)))) \<le> memory_size (serve rs (startup d))"
    by (simp add: session_inv_def)
  then show ?thesis
    using set_memory_size_window [of n c k w] process_conversation_window [of e a w]
      handle_window [of r w]
    by simp
qed

section \<open>No speech detected\<close>

text \<open>\<^verbatim>\<open>not user_text.strip()\<close> holds exactly of the empty and the whitespace-only strings.\<close>

lemma py_strip_empty: "(py_strip s = []) = list_all py_isspace s"
proof
  assume "py_strip s = []"
  then have all: "\<forall>x\<in>set (dropWhile py_isspace s). py_isspace x"
    by (simp add: py_strip_def dropWhile_eq_Nil_conv)
  have "dropWhile py_isspace s = []"
  proof (rule ccontr)
    assume ne: "dropWhile py_isspace s \<noteq> []"
    then have "\<not> py_isspace (hd (dropWhile py_isspace s))" by (rule hd_dropWhile)
    moreover have "hd (dropWhile py_isspace s) \<in> set (dropWhile py_isspace s)"
      using ne by (rule hd_in_set)
    ultimately show False using all by blast
  qed
  then show "list_all py_isspace s"
    by (simp add: dropWhile_eq_Nil_conv list_all_iff)
next
  assume "list_all py_isspace s"
  then have "dropWhile py_isspace s = []"
    by (simp add: dropWhile_eq_Nil_conv list_all_iff)
  then show "py_strip s = []" by (simp only: py_strip_def rev.simps dropWhile.simps)
qed

lemma input_output_distinct: "input_path e \<noteq> output_path e"
  by (simp add: input_path_def output_path_def os_path_join_def AUDIO_DIR_def)

lemma process_conversation_no_speech:
  assumes "audio_dir w \<noteq> None" "deepgram_transcribe e a = Inr tx" "py_strip tx = []"
  shows "process_conversation e a w =
     (Inr (ErrorResult ''No speech detected''),
      w\<lparr>audio_dir := map_option (\<lambda>fs. fs - {input_path e}) (audio_dir w)\<rparr>)"
proof -
  obtain fs where fs: "audio_dir w = Some fs" using assms(1) by auto
  have "insert (input_path e) fs - {input_path e} = fs - {input_path e}" by auto
  then show ?thesis
    using assms(2,3) fs
    by (simp add: process_conversation_def open_write_def os_remove_def os_path_exists_def)
qed

text \<open>
  Claim C5. Let the server be in any state it can reach, and let the transcription of the
  uploaded audio be empty or whitespace-only. Then \<^verbatim>\<open>process_conversation\<close> returns
  the error result \<^verbatim>\<open>{"error": "No speech detected"}\<close>, which the route answers with
  status 400 without touching the state further; the input file written for the request is
  gone afterwards; and the state is otherwise as before: the window and the message history
  are unchanged, and the output path exists afterwards exactly if it existed before.
\<close>

theorem no_speech_discards_input:
  assumes "deepgram_transcribe e a = Inr tx" and "list_all py_isspace tx"
  shows "process_conversation e a (serve rs (startup d)) =
      (Inr (ErrorResult ''No speech detected''),
       (serve rs (startup d))
         \<lparr>audio_dir := map_option (\<lambda>fs. fs - {input_path e}) (audio_dir (serve rs (startup d)))\<rparr>)
    \<and> fst (process_audio e a (serve rs (startup d))) = (400, ErrorContent ''No speech detected'')
    \<and> snd (process_audio e a (serve rs (startup d))) = snd (process_conversation e a (serve rs (startup d)))
    \<and> os_path_exists (input_path e) (snd (process_conversation e a (serve rs (startup d)))) = False
    \<and> os_path_exists (output_path e) (snd (process_conversation e a (serve rs (startup d)))) =
        os_path_exists (output_path e) (serve rs (startup d))
    \<and> conversations (snd (process_conversation e a (serve rs (startup d)))) =
        conversations (serve rs (startup d))
    \<and> conversation_history (snd (process_conversation e a (serve rs (startup d)))) =
        conversation_history (serve rs (startup d))"
proof -
  let ?w = "serve rs (startup d)"
  have "session_inv ?w" by (rule serve_inv) (rule startup_inv)
  then have dir: "audio_dir ?w \<noteq> None" by (simp add: session_inv_def)
  have strip: "py_strip tx = []" using assms(2) by (simp add: py_strip_empty)
  note p = process_conversation_no_speech [OF dir assms(1) strip]
  show ?thesis
    using dir input_output_distinct [of e]
    by (auto simp: p process_audio_def os_path_exists_def split: option.splits)
qed

text \<open>
  The theorem at a freshly started server with no audio directory, for a transcript of a
  space, a tab and a newline.
\<close>

theorem no_speech_discards_input_witness:
  "process_conversation
     \<lparr>now_ms = 1700000000000, deepgram_transcribe = (\<lambda>b. Inr [32, 9, 10]),
      openai_chat = (\<lambda>c m. Inr [111, 107]), deepgram_speak = (\<lambda>s. Inr []),
      default_openai_client = OpenAI ''sk-default''\<rparr> [] (startup None) =
     (Inr (ErrorResult ''No speech detected''), startup None)
   \<and> fst (process_audio
     \<lparr>now_ms = 1700000000000, deepgram_transcribe = (\<lambda>b. Inr [32, 9, 10]),
      openai_chat = (\<lambda>c m. Inr [111, 107]), deepgram_speak = (\<lambda>s. Inr []),
      default_openai_client = OpenAI ''sk-default''\<rparr> [] (startup None)) =
     (400, ErrorContent ''No speech detected'')"
  using no_speech_discards_input
    [of "\<lparr>now_ms = 1700000000000, deepgram_transcribe = (\<lambda>b. Inr [32, 9, 10]),
      openai_chat = (\<lambda>c m. Inr [111, 107]), deepgram_speak = (\<lambda>s. Inr []),
      default_openai_client = OpenAI ''sk-default''\<rparr>" "[]" "[32, 9, 10]" "[]" None]
  by (simp add: serve_def py_isspace_def startup_def VoiceAssistant_init_def os_makedirs_def)

section \<open>Context and message history\<close>

text \<open>
  Claim C6. The message list that \<^verbatim>\<open>get_ai_response\<close> sends to the language model
  (the outcome of the call is the outcome of the chat service on exactly that list) is, with
  context mode off, the system prompt followed by the current user message and nothing else;
  with context mode on, the system prompt, then the message history, then the current user
  message. In every state the server can reach, the history has at most twice the memory
  size entries, so that at most that many prior messages are sent.
\<close>

theorem llm_messages_context:
  "llm_messages tx w =
     (if use_context w
      then system_message # conversation_history w @ [\<lparr>role = ''user'', content = tx\<rparr>]
      else [system_message, \<lparr>role = ''user'', content = tx\<rparr>])
   \<and> fst (get_ai_response e tx w) =
       openai_chat e
         (case custom_openai_client w of Some c \<Rightarrow> c | None \<Rightarrow> default_openai_client e)
         (llm_messages tx w)
   \<and> int (length (conversation_history (serve rs (startup d))))
       \<le> 2 * memory_size (serve rs (startup d))
   \<and> int (length (llm_messages tx (serve rs (startup d))))
       \<le> 2 * memory_size (serve rs (startup d)) + 2"
proof -
  have "session_inv (serve rs (startup d))" by (rule serve_inv) (rule startup_inv)
  then have h: "int (length (conversation_history (serve rs (startup d))))
      \<le> 2 * memory_size (serve rs (startup d))"
    and m: "1 \<le> memory_size (serve rs (startup d))"
    by (simp_all add: session_inv_def)
  have g: "fst (get_ai_response e tx w) =
       openai_chat e
         (case custom_openai_client w of Some c \<Rightarrow> c | None \<Rightarrow> default_openai_client e)
         (llm_messages tx w)"
    by (simp add: get_ai_response_def Let_def split: sum.splits)
  have l: "int (length (llm_messages tx (serve rs (startup d))))
       \<le> 2 * memory_size (serve rs (startup d)) + 2"
    using h m by (simp add: llm_messages_def)
  show ?thesis
    using g h l by (simp add: llm_messages_def)
qed

lemma set_memory_size_suffix:
  "suffix (conversation_history (snd (set_memory_size n c k w))) (conversation_history w)"
  by (simp add: set_memory_size_history py_slice_from_suffix)

lemma set_memory_size_keeps:
  assumes "1 \<le> n"
  shows "conversation_history (snd (set_memory_size n c k w)) =
     drop (length (conversation_history w) - nat (2 * n)) (conversation_history w)"
proof (cases "int (length (conversation_history w)) > n * 2")
  case True
  with assms show ?thesis
    by (simp add: set_memory_size_history py_slice_from_def nat_diff_distrib mult.commute)
next
  case False
  then have "length (conversation_history w) - nat (2 * n) = 0" by simp
  with False assms show ?thesis by (simp add: set_memory_size_history)
qed

text \<open>
  Claim C7. In every state the server can reach, the message history has at most twice the
  memory size entries. From such a state, \<^verbatim>\<open>get_ai_response\<close> leaves the history
  within that bound; when the chat service answers, the new history is the old one with the
  user message and the reply appended, cut down to its most recent entries, twice the memory
  size of them at most, in order; when the service raises, the history is unchanged. The
  memory-size route also leaves the history within the bound of the memory size it leaves,
  keeping the most recent entries in order. In any state at all, what
  \<^verbatim>\<open>set_memory_size\<close> keeps of the history is a suffix of it.
\<close>

theorem history_bounded_recent:
  "int (length (conversation_history (serve rs (startup d))))
     \<le> 2 * memory_size (serve rs (startup d))
   \<and> int (length (conversation_history (snd (get_ai_response e tx (serve rs (startup d))))))
       \<le> 2 * memory_size (snd (get_ai_response e tx (serve rs (startup d))))
   \<and> conversation_history (snd (get_ai_response e tx (serve rs (startup d)))) =
       (case fst (get_ai_response e tx (serve rs (startup d))) of
          Inl err \<Rightarrow> conversation_history (serve rs (startup d))
        | Inr reply \<Rightarrow>
            drop (length (conversation_history (serve rs (startup d))) + 2
                    - nat (2 * memory_size (serve rs (startup d))))
              (conversation_history (serve rs (startup d))
               @ [\<lparr>role = ''user'', content = tx\<rparr>,
                  \<lparr>role = ''assistant'', content = reply\<rparr>]))
   \<and> int (length (conversation_history (snd (set_memory_size_route q (serve rs (startup d))))))
       \<le> 2 * memory_size (snd (set_memory_size_route q (serve rs (startup d))))
   \<and> conversation_history (snd (set_memory_size_route q (serve rs (startup d)))) =
       drop (length (conversation_history (serve rs (startup d)))
               - nat (2 * memory_size (snd (set_memory_size_route q (serve rs (startup d))))))
         (conversation_history (serve rs (startup d)))
   \<and> suffix (conversation_history (snd (set_memory_size n c k w))) (conversation_history w)"
proof -
  let ?w = "serve rs (startup d)"
  have inv: "session_inv ?w" by (rule serve_inv) (rule startup_inv)
  then have h: "int (length (conversation_history ?w)) \<le> 2 * memory_size ?w"
    and m: "1 \<le> memory_size ?w"
    by (simp_all add: session_inv_def)
  have g1: "int (length (conversation_history (snd (get_ai_response e tx ?w))))
       \<le> 2 * memory_size (snd (get_ai_response e tx ?w))"
    using get_ai_response_inv [OF inv, of e tx] by (simp add: session_inv_def)
  have g2: "conversation_history (snd (get_ai_response e tx ?w)) =
       (case fst (get_ai_response e tx ?w) of
          Inl err \<Rightarrow> conversation_history ?w
        | Inr reply \<Rightarrow>
            drop (length (conversation_history ?w) + 2 - nat (2 * memory_size ?w))
              (conversation_history ?w
               @ [\<lparr>role = ''user'', content = tx\<rparr>,
                  \<lparr>role = ''assistant'', content = reply\<rparr>]))"
  proof (cases "fst (get_ai_response e tx ?w)")
    case (Inl err)
    then show ?thesis by (simp add: get_ai_response_history)
  next
    case (Inr reply)
    let ?v = "?w\<lparr>conversation_history := conversation_history ?w
               @ [\<lparr>role = ''user'', content = tx\<rparr>,
                  \<lparr>role = ''assistant'', content = reply\<rparr>]\<rparr>"
    have "1 \<le> memory_size ?v" using m by simp
    from trim_history_keeps [OF this] Inr show ?thesis
      by (simp add: get_ai_response_history)
  qed
  let ?s = "snd (set_memory_size_route q ?w)"
  have "?s = serve (rs @ [SetMemorySize q]) (startup d)" by (simp add: serve_def)
  then have invs: "session_inv ?s" by (simp add: serve_inv startup_inv)
  then have s1: "int (length (conversation_history ?s)) \<le> 2 * memory_size ?s"
    by (simp add: session_inv_def)
  have s2: "conversation_history ?s =
       drop (length (conversation_history ?w) - nat (2 * memory_size ?s)) (conversation_history ?w)"
  proof -
    define valid where "valid \<longleftrightarrow>
      (if is_custom_req q then 1 \<le> size_req q \<and> size_req q \<le> 100
       else size_req q \<in> {5, 10, 20})"
    have st: "?s = (if valid
        then snd (set_memory_size (size_req q) (is_custom_req q) (api_key_req q) ?w) else ?w)"
      unfolding valid_def by (rule set_memory_size_route_state)
    show ?thesis
    proof (cases valid)
      case True
      then have "1 \<le> size_req q" by (auto simp: valid_def split: if_splits)
      from set_memory_size_keeps [OF this, of "is_custom_req q" "api_key_req q" ?w] True
      show ?thesis by (simp add: st set_memory_size_fields)
    next
      case False
      have "length (conversation_history ?w) - nat (2 * memory_size ?w) = 0" using h by simp
      with False show ?thesis by (simp add: st)
    qed
  qed
  show ?thesis
    using h g1 g2 s1 s2 set_memory_size_suffix [of n c k w] by simp
qed

section \<open>Turns and the message history\<close>

text \<open>The definitions that the simplifier unfolds to run the server on concrete requests.\<close>

lemmas run_defs = serve_def startup_def VoiceAssistant_init_def os_makedirs_def
  process_audio_def process_conversation_def open_write_def os_remove_def os_path_exists_def
  input_path_def output_path_def os_path_join_def AUDIO_DIR_def str_int_def py_strip_def
  py_isspace_def get_ai_response_def llm_messages_def trim_history_def py_slice_from_def
  trim_conversations_def renumber_conversations_def enumerate_eq_zip Let_def
  set_memory_size_route_def set_memory_size_def remove_if_exists_def os_path_basename_def
  update_settings_def set_use_context_def

lemma renumber_last:
  "conversations w \<noteq> [] \<Longrightarrow>
   turn_content (last (conversations (renumber_conversations w))) =
     turn_content (last (conversations w))"
proof -
  assume ne: "conversations w \<noteq> []"
  then have "conversations (renumber_conversations w) \<noteq> []"
    using renumber_fields(7) [of w] by (metis length_0_conv)
  then have "turn_content (last (conversations (renumber_conversations w))) =
      last (map turn_content (conversations (renumber_conversations w)))"
    by (simp add: last_map)
  also have "\<dots> = last (map turn_content (conversations w))"
    by (simp only: renumber_content)
  also have "\<dots> = turn_content (last (conversations w))"
    using ne by (simp add: last_map)
  finally show ?thesis .
qed

lemma process_conversation_success:
  assumes inv: "session_inv w"
    and ok: "fst (process_conversation e a w) = Inr (TurnResult t)"
  shows "\<exists>w1. memory_size w1 = memory_size w
      \<and> conversation_history w1 = conversation_history w
      \<and> fst (get_ai_response e (user_text t) w1) = Inr (ai_text t)
      \<and> conversation_history (snd (process_conversation e a w)) =
          conversation_history (snd (get_ai_response e (user_text t) w1))"
proof -
  let ?w1 = "w\<lparr>audio_dir := Some (insert (input_path e) (the (audio_dir w)))\<rparr>"
  let ?Q = "\<lambda>p. fst p = Inr (TurnResult t) \<longrightarrow>
      fst (get_ai_response e (user_text t) ?w1) = Inr (ai_text t)
      \<and> conversation_history (snd p) =
          conversation_history (snd (get_ai_response e (user_text t) ?w1))"
  have i1: "session_inv ?w1" using inv by (simp add: session_inv_def)
  have "?Q (process_conversation e a w)"
  proof (rule process_conversation_rule [where P = ?Q])
    show "?Q (Inl (FileNotFoundError (input_path e)), w)" by simp
    show "?Q (Inl err, ?w1)" for err by simp
    show "?Q (Inr (ErrorResult ''No speech detected''),
        ?w1\<lparr>audio_dir := Some (insert (input_path e) (the (audio_dir w)) - {input_path e})\<rparr>)"
      by simp
    show "?Q (Inl err, w2)" for err w2 by simp
    show "?Q (Inl err, w2)" for err w2 by simp
    show "?Q (case r5 of
              Inl err \<Rightarrow> (Inl err, w5)
            | Inr u \<Rightarrow>
               (Inr (TurnResult
                  (if conversations (renumber_conversations w5) = [] then dt
                   else last (conversations (renumber_conversations w5)))),
                renumber_conversations w5))"
      if g: "get_ai_response e tx ?w1 = (Inr reply, w2)"
        and dt: "dt = \<lparr>turn_id = int (length (conversations w)) + 1, user_text = tx,
               ai_text = reply, input_audio = input_path e, output_audio = output_path e,
               input_audio_url = None, output_audio_url = None\<rparr>"
        and w4: "w4 = w2\<lparr>audio_dir := Some (insert (output_path e) (the (audio_dir w2))),
                 conversations := conversations w2 @ [dt]\<rparr>"
        and t: "trim_conversations w4 = (r5, w5)"
      for tx reply w2 w4 dt r5 w5
    proof (cases r5)
      case (Inl err)
      then show ?thesis by simp
    next
      case (Inr u)
      have i2: "session_inv w2" using get_ai_response_inv [OF i1, of e tx] g by simp
      have m4: "0 \<le> memory_size w4" "1 \<le> memory_size w4"
        using i2 by (simp_all add: session_inv_def w4)
      have h4: "int (length (conversation_history w4)) \<le> 2 * memory_size w4"
        using i2 by (simp add: session_inv_def w4)
      have "conversation_history w5 = conversation_history (trim_history w4)"
        using trim_conversations_history [of w4] t m4 by simp
      also have "\<dots> = conversation_history w4"
        using h4 by (simp add: trim_history_drop mult.commute)
      also have "\<dots> = conversation_history w2" by (simp add: w4)
      finally have h5: "conversation_history w5 = conversation_history w2" .
      have c5: "conversations w5 =
          drop (nat (int (length (conversations w4)) - memory_size w4)) (conversations w4)"
        using trim_conversations_window [of w4] t by simp
      have lt: "nat (int (length (conversations w4)) - memory_size w4) < length (conversations w4)"
        using m4 by (simp add: w4)
      then have ne5: "conversations w5 \<noteq> []" by (simp add: c5)
      have "last (conversations w5) = last (conversations w4)"
        unfolding c5 using lt by (rule last_drop)
      then have l5: "last (conversations w5) = dt" by (simp add: w4)
      have ner: "conversations (renumber_conversations w5) \<noteq> []"
        using ne5 renumber_fields(7) [of w5] by (metis length_0_conv)
      have tc: "turn_content (last (conversations (renumber_conversations w5))) = turn_content dt"
        using renumber_last [OF ne5] l5 by simp
      show ?thesis
      proof (intro impI)
        assume "fst (case r5 of
              Inl err \<Rightarrow> (Inl err, w5)
            | Inr u \<Rightarrow>
               (Inr (TurnResult
                  (if conversations (renumber_conversations w5) = [] then dt
                   else last (conversations (renumber_conversations w5)))),
                renumber_conversations w5)) = Inr (TurnResult t)"
        then have "t = last (conversations (renumber_conversations w5))"
          using Inr ner by simp
        then have "turn_content t = turn_content dt" using tc by simp
        then have ut: "user_text t = tx" "ai_text t = reply"
          by (simp_all add: turn_content_def dt)
        show "fst (get_ai_response e (user_text t) ?w1) = Inr (ai_text t)
          \<and> conversation_history (snd (case r5 of
              Inl err \<Rightarrow> (Inl err, w5)
            | Inr u \<Rightarrow>
               (Inr (TurnResult
                  (if conversations (renumber_conversations w5) = [] then dt
                   else last (conversations (renumber_conversations w5)))),
                renumber_conversations w5))) =
            conversation_history (snd (get_ai_response e (user_text t) ?w1))"
          using Inr g ut h5 by (simp add: renumber_fields)
      qed
    qed
  qed
  with ok have "fst (get_ai_response e (user_text t) ?w1) = Inr (ai_text t)
      \<and> conversation_history (snd (process_conversation e a w)) =
          conversation_history (snd (get_ai_response e (user_text t) ?w1))"
    by simp
  then show ?thesis
    by (intro exI [of _ ?w1]) simp
qed

lemma process_conversation_records:
  assumes inv: "session_inv w"
    and ok: "fst (process_conversation e a w) = Inr (TurnResult t)"
  shows "suffix [\<lparr>role = ''user'', content = user_text t\<rparr>,
                 \<lparr>role = ''assistant'', content = ai_text t\<rparr>]
           (conversation_history (snd (process_conversation e a w)))"
proof -
  obtain w1 where m: "memory_size w1 = memory_size w"
    and h: "conversation_history w1 = conversation_history w"
    and g: "fst (get_ai_response e (user_text t) w1) = Inr (ai_text t)"
    and p: "conversation_history (snd (process_conversation e a w)) =
          conversation_history (snd (get_ai_response e (user_text t) w1))"
    using process_conversation_success [OF inv ok] by blast
  let ?new = "[\<lparr>role = ''user'', content = user_text t\<rparr>,
               \<lparr>role = ''assistant'', content = ai_text t\<rparr>]"
  let ?v = "w1\<lparr>conversation_history := conversation_history w1 @ ?new\<rparr>"
  have m1: "1 \<le> memory_size ?v" using inv m by (simp add: session_inv_def)
  have "conversation_history (snd (get_ai_response e (user_text t) w1)) =
      conversation_history (trim_history ?v)"
    using g by (simp add: get_ai_response_history)
  also have "\<dots> = drop (length (conversation_history w1) + 2 - nat (2 * memory_size w1))
      (conversation_history w1 @ ?new)"
    using trim_history_keeps [OF m1] by simp
  also have "\<dots> = drop (length (conversation_history w1) + 2 - nat (2 * memory_size w1))
      (conversation_history w1) @ ?new"
  proof -
    have "length (conversation_history w1) + 2 - nat (2 * memory_size w1)
        \<le> length (conversation_history w1)"
      using m1 by simp
    then show ?thesis by simp
  qed
  finally show ?thesis
    unfolding p by (simp add: suffix_def)
qed

text \<open>
  Claim C9. Let the server be in any state it can reach, with context mode on or off, and
  let a conversation turn succeed there. Then the message history ends with the turn's user
  message followed by the assistant's reply. Switching context mode on afterwards leaves the
  history as it is, and the next call to the language model is sent the system prompt, that
  history (which holds the turn), and the new user message.
\<close>

theorem turns_recorded_without_context:
  assumes "fst (process_conversation e a (serve rs (startup d))) = Inr (TurnResult t)"
  shows "suffix [\<lparr>role = ''user'', content = user_text t\<rparr>,
                 \<lparr>role = ''assistant'', content = ai_text t\<rparr>]
           (conversation_history (serve (rs @ [Process e a]) (startup d)))
    \<and> conversation_history (serve (rs @ [Process e a, UpdateSettings True]) (startup d)) =
        conversation_history (serve (rs @ [Process e a]) (startup d))
    \<and> llm_messages q (serve (rs @ [Process e a, UpdateSettings True]) (startup d)) =
        system_message
        # conversation_history (serve (rs @ [Process e a]) (startup d))
        @ [\<lparr>role = ''user'', content = q\<rparr>]"
proof -
  let ?w = "serve rs (startup d)"
  have inv: "session_inv ?w" by (rule serve_inv) (rule startup_inv)
  have s: "serve (rs @ [Process e a]) (startup d) = snd (process_audio e a ?w)"
    by (simp add: serve_def)
  have s2: "serve (rs @ [Process e a, UpdateSettings True]) (startup d) =
      set_use_context True (snd (process_audio e a ?w))"
    by (simp add: serve_def update_settings_def)
  show ?thesis
    using process_conversation_records [OF inv assms]
    by (simp add: s s2 process_audio_fields llm_messages_def set_use_context_def)
qed

text \<open>
  The theorem at a freshly started server, where context mode is off: one turn (``hi'',
  answered ``ok''), then context mode switched on; the next prompt carries the turn.
\<close>

theorem turns_recorded_without_context_witness:
  "use_context (startup None) = False
   \<and> llm_messages [119, 104, 121]
       (serve [Process \<lparr>now_ms = 7, deepgram_transcribe = (\<lambda>b. Inr [104, 105]),
                openai_chat = (\<lambda>c m. Inr [111, 107]), deepgram_speak = (\<lambda>s. Inr []),
                default_openai_client = OpenAI ''sk-default''\<rparr> [],
               UpdateSettings True] (startup None)) =
     [system_message,
      \<lparr>role = ''user'', content = [104, 105]\<rparr>,
      \<lparr>role = ''assistant'', content = [111, 107]\<rparr>,
      \<lparr>role = ''user'', content = [119, 104, 121]\<rparr>]"
proof -
  let ?e = "\<lparr>now_ms = 7, deepgram_transcribe = (\<lambda>b. Inr [104, 105]),
                openai_chat = (\<lambda>c m. Inr [111, 107]), deepgram_speak = (\<lambda>s. Inr []),
                default_openai_client = OpenAI ''sk-default''\<rparr>"
  let ?t = "\<lparr>turn_id = 1, user_text = [104, 105], ai_text = [111, 107],
             input_audio = ''audio_files/input_7.wav'',
             output_audio = ''audio_files/output_7.mp3'',
             input_audio_url = None, output_audio_url = None\<rparr>"
  have ok: "fst (process_conversation ?e [] (serve [] (startup None))) = Inr (TurnResult ?t)"
    by (simp add: run_defs)
  have h: "conversation_history (serve ([] @ [Process ?e []]) (startup None)) =
      [\<lparr>role = ''user'', content = [104, 105]\<rparr>,
       \<lparr>role = ''assistant'', content = [111, 107]\<rparr>]"
    by (simp add: run_defs)
  have u: "use_context (startup None) = False" by (simp add: run_defs)
  from turns_recorded_without_context [OF ok, of "[119, 104, 121]"] h u
  show ?thesis by simp
qed

section \<open>Ids after eviction\<close>

text \<open>
  A turn that \<^verbatim>\<open>process_conversation\<close> completes leaves the ids of the window as
  1, 2, ..., in list order: the method renumbers after it trims.
\<close>

lemma process_conversation_ids:
  "fst (process_conversation e a w) = Inr (TurnResult t) \<Longrightarrow>
   map turn_id (conversations (snd (process_conversation e a w))) =
     map (\<lambda>i. int i + 1) [0..<length (conversations (snd (process_conversation e a w)))]"
  by (rule process_conversation_rule
      [where P = "\<lambda>p. fst p = Inr (TurnResult t) \<longrightarrow>
         map turn_id (conversations (snd p)) =
           map (\<lambda>i. int i + 1) [0..<length (conversations (snd p))]"
         and e = e and a = a and w = w, THEN mp])
    (auto split: sum.splits simp: renumber_ids renumber_fields)

text \<open>
  Claim C2 says that after every operation that evicts turns, by a new turn past capacity
  or by a smaller memory size, the ids of the remaining turns are 1..N in list order. The
  code renumbers in \<^verbatim>\<open>process_conversation\<close> only;
  \<^verbatim>\<open>set_memory_size\<close> trims and does not renumber. Run on three turns, the server
  holds the ids 1, 2, 3; a request for the custom memory size 2 then evicts the oldest turn
  and leaves the ids 2, 3.
\<close>

theorem shrinking_keeps_stale_ids:
  "map turn_id (conversations (serve
     [Process \<lparr>now_ms = 1, deepgram_transcribe = (\<lambda>b. Inr [104, 105]),
                openai_chat = (\<lambda>c m. Inr [111, 107]), deepgram_speak = (\<lambda>s. Inr []),
                default_openai_client = OpenAI ''sk-default''\<rparr> [],
      Process \<lparr>now_ms = 2, deepgram_transcribe = (\<lambda>b. Inr [104, 105]),
                openai_chat = (\<lambda>c m. Inr [111, 107]), deepgram_speak = (\<lambda>s. Inr []),
                default_openai_client = OpenAI ''sk-default''\<rparr> [],
      Process \<lparr>now_ms = 3, deepgram_transcribe = (\<lambda>b. Inr [104, 105]),
                openai_chat = (\<lambda>c m. Inr [111, 107]), deepgram_speak = (\<lambda>s. Inr []),
                default_openai_client = OpenAI ''sk-default''\<rparr> []]
     (startup None))) = [1, 2, 3]
   \<and> map turn_id (conversations (serve
     [Process \<lparr>now_ms = 1, deepgram_transcribe = (\<lambda>b. Inr [104, 105]),
                openai_chat = (\<lambda>c m. Inr [111, 107]), deepgram_speak = (\<lambda>s. Inr []),
                default_openai_client = OpenAI ''sk-default''\<rparr> [],
      Process \<lparr>now_ms = 2, deepgram_transcribe = (\<lambda>b. Inr [104, 105]),
                openai_chat = (\<lambda>c m. Inr [111, 107]), deepgram_speak = (\<lambda>s. Inr []),
                default_openai_client = OpenAI ''sk-default''\<rparr> [],
      Process \<lparr>now_ms = 3, deepgram_transcribe = (\<lambda>b. Inr [104, 105]),
                openai_chat = (\<lambda>c m. Inr [111, 107]), deepgram_speak = (\<lambda>s. Inr []),
                default_openai_client = OpenAI ''sk-default''\<rparr> [],
      SetMemorySize \<lparr>size_req = 2, is_custom_req = True, api_key_req = None\<rparr>]
     (startup None))) = [2, 3]"
  by (simp add: run_defs)

end
